theory Spec2Isabelle
  imports Complex_Main "HOL-Library.Sublist"
begin

section \<open>Python values, errors and slices\<close>

text \<open>
  The exceptions the two modules can raise: \<open>TypeError\<close> from Python's binding of call
  arguments, \<open>ValueError\<close> from scikit-learn's input validation, \<open>IndexError\<close> from
  indexing an array out of range and \<open>KeyError\<close> from a catalog lookup.
\<close>

datatype error = TypeError | ValueError | IndexError | KeyError

text \<open>
  A two-dimensional array of float64 numbers is the list of its rows. Every finite
  float64 number is a real number; NaN and the infinities do not occur as entries. The
  width of an array without rows is not recorded; every routine below rejects such an
  array before it looks at the width.
\<close>

type_synonym matrix = "real list list"

definition ncols :: "matrix \<Rightarrow> nat" where
  "ncols m = (case m of [] \<Rightarrow> 0 | r # _ \<Rightarrow> length r)"

text \<open>
  The slice \<open>xs[:k]\<close> of Python and NumPy: the first \<open>k\<close> elements when \<open>k\<close> is not
  negative, all but the last \<open>-k\<close> elements when it is. A slice never raises.
\<close>

definition slice_to :: "int \<Rightarrow> 'a list \<Rightarrow> 'a list" where
  "slice_to k xs =
     (if 0 \<le> k then take (nat k) xs else take (length xs - nat (- k)) xs)"

section \<open>The library routines\<close>

text \<open>
  \<open>sklearn.metrics.pairwise.euclidean_distances(X, Y)\<close>: both arguments must have at
  least one row and one column and the same number of columns, otherwise the validation
  raises \<open>ValueError\<close>; the result holds, in row \<open>i\<close> and column \<open>j\<close>, the distance
  that the routine computes between row \<open>i\<close> of \<open>X\<close> and row \<open>j\<close> of \<open>Y\<close>.

  The routine computes in float64, as the square root of \<open>x.x - 2 x.y + y.y\<close> cut at
  zero, and every operation rounds; for rows of more than one column the order in
  which the products are added is that of the BLAS library. The embedding therefore
  takes the computed distance of two rows as a parameter \<open>distance\<close>, with values in a
  linearly ordered type: the float64 numbers in the order in which NumPy sorts them
  (NaN last). Nothing is assumed about it, so that it also stands for the path the
  routine takes for float32 arrays.
\<close>

type_synonym 'd distance = "real list \<Rightarrow> real list \<Rightarrow> 'd"

definition euclidean_distances ::
  "'d distance \<Rightarrow> matrix \<Rightarrow> matrix \<Rightarrow> error + 'd list list" where
  "euclidean_distances distance X Y =
     (if X = [] \<or> ncols X = 0 then Inl ValueError
      else if Y = [] \<or> ncols Y = 0 then Inl ValueError
      else if ncols X \<noteq> ncols Y then Inl ValueError
      else Inr (map (\<lambda>u. map (\<lambda>v. distance u v) Y) X))"

text \<open>The Euclidean distance of two rows as real numbers, without any rounding.\<close>

definition euclidean :: "real list \<Rightarrow> real list \<Rightarrow> real" where
  "euclidean u v = sqrt (sum_list (map (\<lambda>(a, b). (a - b)\<^sup>2) (zip u v)))"

text \<open>
  The distance as float64 arithmetic computes it. \<open>fl\<close> rounds a real number to the
  nearest number with a significand of 53 bits, a tie going to the even significand;
  this is the rounding of float64 wherever the result neither overflows nor is
  subnormal, as in every evaluation below. The routine computes
  \<^verbatim>\<open>
  distances = -2 * safe_sparse_dot(X, Y.T)
  distances += XX
  distances += YY
  np.maximum(distances, 0, out=distances)
  return np.sqrt(distances)
  \<close>
  with \<open>XX\<close> and \<open>YY\<close> the squared norms of the rows. For rows of one column each dot
  product is a single rounded product; for wider rows \<open>float64_dot\<close> adds the rounded
  products from left to right, which is one of the orders a BLAS library may take and
  gives the exact sums on the small integer rows used below.
\<close>

definition round_half_even :: "real \<Rightarrow> int" where
  "round_half_even x =
     (let n = \<lfloor>x\<rfloor>; r = x - of_int n
      in if r < 1 / 2 then n else if 1 / 2 < r then n + 1 else if even n then n else n + 1)"

definition fl :: "real \<Rightarrow> real" where
  "fl x =
     (if x = 0 then 0
      else let e = \<lfloor>log 2 \<bar>x\<bar>\<rfloor> - 52
           in of_int (round_half_even (x / 2 powr of_int e)) * 2 powr of_int e)"

definition float64_dot :: "real list \<Rightarrow> real list \<Rightarrow> real" where
  "float64_dot u v = foldl (\<lambda>s (a, b). fl (s + fl (a * b))) 0 (zip u v)"

definition float64_distance :: "real distance" where
  "float64_distance u v =
     fl (sqrt (max (fl (fl (fl (- 2 * float64_dot u v) + float64_dot u u)
                      + float64_dot v v)) 0))"

text \<open>
  \<open>numpy.argsort\<close> is called with its default \<open>kind\<close>, an introsort that NumPy documents
  as not stable. The embedding therefore takes the one-dimensional argsort as a
  parameter \<open>argsort\<close>, bound only by what NumPy promises: the result is a permutation of
  the positions of its argument that lists the values in ascending order. On a
  two-dimensional array \<open>numpy.argsort\<close> sorts every row (the last axis).
\<close>

type_synonym 'd argsort = "'d list \<Rightarrow> nat list"

definition argsort_contract :: "('d::linorder) argsort \<Rightarrow> bool" where
  "argsort_contract argsort =
     (\<forall>d. distinct (argsort d) \<and> set (argsort d) = {0..<length d} \<and>
          sorted (map (\<lambda>i. d ! i) (argsort d)))"

text \<open>
  One argsort that meets the contract, NumPy's \<open>kind='stable'\<close>: insertion of the
  positions by their value, equal values staying in position order. It serves to
  evaluate the definitions on concrete arrays.
\<close>

definition stable_argsort :: "('d::linorder) argsort" where
  "stable_argsort d = sort_key (\<lambda>i. d ! i) [0..<length d]"

text \<open>
  Another one, which lists equal values in descending position order. The contract
  does not choose between the two.
\<close>

definition reversing_argsort :: "real argsort" where
  "reversing_argsort d = rev (sort_key (\<lambda>i. - (d ! i)) [0..<length d])"

section \<open>The nearest-neighbour finder\<close>

text \<open>
  The body shared by \<open>_find_nearest\<close> of \<open>qrecsys.py\<close> and of \<open>recsys_pipeline.py\<close>:
  \<^verbatim>\<open>
  dists = euclidean_distances(x, y)
  sorted_items = np.argsort(dists)[::-1]
  return sorted_items[0][:K]
  \<close>
  \<open>dists\<close> has one row per row of \<open>x\<close>. The slice \<open>[::-1]\<close> acts on the first axis of the
  two-dimensional index array: it reverses the order of the rows, not the order inside
  a row. \<open>[0]\<close> then selects the first of the reversed rows and \<open>[:K]\<close> cuts it.
\<close>

definition find_nearest_body ::
  "('d::linorder) argsort \<Rightarrow> 'd distance \<Rightarrow> matrix \<Rightarrow> matrix \<Rightarrow> int \<Rightarrow> error + nat list" where
  "find_nearest_body argsort distance x y K =
     (case euclidean_distances distance x y of
        Inl e \<Rightarrow> Inl e
      | Inr dists \<Rightarrow>
          (let sorted_items = rev (map argsort dists)
           in case sorted_items of
                [] \<Rightarrow> Inl IndexError
              | row # _ \<Rightarrow> Inr (slice_to K row)))"

section \<open>The finder and the arrays in memory\<close>

text \<open>
  Arrays are objects that the caller and \<open>_find_nearest\<close> share: the memory is the list
  of all arrays, an array is named by its position in it, and a new array is appended.
  The three statements of the body read the arrays \<open>x\<close> and \<open>y\<close>, create the array
  \<open>dists\<close> and create the index array that \<open>np.argsort\<close> returns; \<open>[::-1]\<close>, \<open>[0]\<close> and
  \<open>[:K]\<close> are views of that index array and create nothing. No statement writes to an
  array. The function returns what the body returns together with the memory it
  leaves.
\<close>

datatype 'd array = Floats matrix | Distances "'d list list" | Indices "nat list list"

definition find_nearest_memory ::
  "('d::linorder) argsort \<Rightarrow> 'd distance \<Rightarrow> 'd array list \<Rightarrow> nat \<Rightarrow> nat \<Rightarrow> int \<Rightarrow>
     (error + nat list) \<times> 'd array list" where
  "find_nearest_memory argsort distance memory x y K =
     (case (memory ! x, memory ! y) of
        (Floats X, Floats Y) \<Rightarrow>
          (case euclidean_distances distance X Y of
             Inl e \<Rightarrow> (Inl e, memory)
           | Inr dists \<Rightarrow>
               (let memory = memory @ [Distances dists];
                    order = map argsort dists;
                    memory = memory @ [Indices order];
                    sorted_items = rev order
                in case sorted_items of
                     [] \<Rightarrow> (Inl IndexError, memory)
                   | row # _ \<Rightarrow> (Inr (slice_to K row), memory)))
      | _ \<Rightarrow> (Inl TypeError, memory))"

section \<open>Calling a method\<close>

text \<open>
  Python binds the arguments of a call to the parameters of the function: positional
  arguments fill the parameters from the left, each keyword argument must name a
  parameter that is not filled yet, and no parameter may stay empty. A method looked up
  on an instance receives the instance as its first positional argument. Each violation
  raises \<open>TypeError\<close>.
\<close>

datatype arg = Self | Array matrix | Integer int

fun bind_keywords ::
  "string list \<Rightarrow> (string \<times> arg) list \<Rightarrow> (string \<times> arg) list \<Rightarrow> error + (string \<times> arg) list"
where
  "bind_keywords params bound [] = Inr bound"
| "bind_keywords params bound ((k, v) # kwargs) =
     (if k \<notin> set params then Inl TypeError
      else if k \<in> set (map fst bound) then Inl TypeError
      else bind_keywords params (bound @ [(k, v)]) kwargs)"

definition bind_arguments ::
  "string list \<Rightarrow> arg list \<Rightarrow> (string \<times> arg) list \<Rightarrow> error + (string \<rightharpoonup> arg)" where
  "bind_arguments params args kwargs =
     (if length params < length args then Inl TypeError
      else case bind_keywords params (zip params args) kwargs of
             Inl e \<Rightarrow> Inl e
           | Inr bound \<Rightarrow>
               if length bound < length params then Inl TypeError
               else Inr (map_of bound))"

text \<open>
  Running the body on bound arguments. The body needs arrays for \<open>x\<close> and \<open>y\<close> and an
  integer for \<open>K\<close>; the last branch stands for any other binding and is never reached by
  the calls below.
\<close>

definition run_find_nearest ::
  "('d::linorder) argsort \<Rightarrow> 'd distance \<Rightarrow> (string \<rightharpoonup> arg) \<Rightarrow> error + nat list" where
  "run_find_nearest argsort distance env =
     (case (env ''x'', env ''y'', env ''K'') of
        (Some (Array x), Some (Array y), Some (Integer K)) \<Rightarrow> find_nearest_body argsort distance x y K
      | _ \<Rightarrow> Inl TypeError)"

text \<open>
  \<open>qrecsys.py\<close> declares \<open>def _find_nearest(self, x, y, K)\<close>; the call
  \<open>self._find_nearest(x, y, K=K)\<close> passes the instance and two arrays by position and
  \<open>K\<close> by keyword.
\<close>

definition qrecsys_find_nearest ::
  "('d::linorder) argsort \<Rightarrow> 'd distance \<Rightarrow> matrix \<Rightarrow> matrix \<Rightarrow> int \<Rightarrow> error + nat list" where
  "qrecsys_find_nearest argsort distance x y K =
     (case bind_arguments [''self'', ''x'', ''y'', ''K''] [Self, Array x, Array y]
             [(''K'', Integer K)] of
        Inl e \<Rightarrow> Inl e
      | Inr env \<Rightarrow> run_find_nearest argsort distance env)"

section \<open>The recommender of \<open>qrecsys.py\<close>\<close>

text \<open>
  The keyword options of \<open>recommend\<close>. Python integers are unbounded, and nothing in the
  code restricts their sign.
\<close>

record options =
  K_use :: int
  K_mf :: int
  n_to_recommend :: int
  use_buffer_multiplier :: int
  mf_buffer_multiplier :: int

text \<open>
  The attributes set by \<open>__init__\<close>. The encoder is the external sentence encoder: it
  takes a list of texts and returns an array with one row per text. The catalog \<open>items\<close>
  is a data frame indexed by item id with the single column \<open>title\<close>, here a map from
  the id to the title.
\<close>

record recommender =
  encoder :: "string list \<Rightarrow> matrix"
  embeds_mf :: matrix
  embeds_use :: matrix
  items :: "nat \<rightharpoonup> string"
  interacted_items :: "nat set"

text \<open>\<open>m[None, i]\<close>: row \<open>i\<close> of \<open>m\<close> as an array of one row; \<open>IndexError\<close> out of range.\<close>

definition row_of :: "matrix \<Rightarrow> nat \<Rightarrow> error + matrix" where
  "row_of m i = (if i < length m then Inr [m ! i] else Inl IndexError)"

text \<open>
  \<open>numpy.setdiff1d(ar1, ar2, assume_unique=True)\<close> is
  \<open>ar1[in1d(ar1, ar2, assume_unique=True, invert=True)]\<close>: a Boolean mask over \<open>ar1\<close>
  that is true where the element does not occur in \<open>ar2\<close>, and the selection of \<open>ar1\<close>
  by that mask. With \<open>assume_unique\<close> NumPy neither sorts nor deduplicates \<open>ar1\<close>.
\<close>

definition in1d :: "nat list \<Rightarrow> nat list \<Rightarrow> bool \<Rightarrow> bool list" where
  "in1d ar1 ar2 invert = map (\<lambda>a. (a \<in> set ar2) \<noteq> invert) ar1"

definition select_mask :: "'a list \<Rightarrow> bool list \<Rightarrow> 'a list" where
  "select_mask ar flags = map fst (filter snd (zip ar flags))"

definition setdiff1d :: "nat list \<Rightarrow> nat list \<Rightarrow> nat list" where
  "setdiff1d ar1 ar2 = select_mask ar1 (in1d ar1 ar2 True)"

text \<open>
  Steps 1 to 3 of \<open>recommend\<close>: the over-fetched semantic neighbours of the encoded
  query, those of them that have been interacted with, and the first \<open>K_use\<close> of these.
\<close>

definition qrecsys_seeds ::
  "('d::linorder) argsort \<Rightarrow> 'd distance \<Rightarrow> recommender \<Rightarrow> string \<Rightarrow> options \<Rightarrow> error + nat list" where
  "qrecsys_seeds argsort distance R query opts =
     (let encoded_query = encoder R [query]
      in case qrecsys_find_nearest argsort distance encoded_query (embeds_use R)
                (K_use opts * use_buffer_multiplier opts) of
           Inl e \<Rightarrow> Inl e
         | Inr item_ids \<Rightarrow>
             (let item_ids = filter (\<lambda>item_id. item_id \<in> interacted_items R) item_ids
              in Inr (slice_to (K_use opts) item_ids)))"

text \<open>The body of the loop of step 4, from the accumulated \<open>recs\<close> to the extended list.\<close>

definition qrecsys_expand_seed ::
  "('d::linorder) argsort \<Rightarrow> 'd distance \<Rightarrow> recommender \<Rightarrow> options \<Rightarrow> nat list \<Rightarrow> nat \<Rightarrow> error + nat list"
where
  "qrecsys_expand_seed argsort distance R opts recs item_id =
     (case row_of (embeds_mf R) item_id of
        Inl e \<Rightarrow> Inl e
      | Inr x \<Rightarrow>
          (case qrecsys_find_nearest argsort distance x (embeds_mf R)
                  (K_mf opts * mf_buffer_multiplier opts) of
             Inl e \<Rightarrow> Inl e
           | Inr mf_items \<Rightarrow>
               (let rec = slice_to (K_mf opts) (setdiff1d mf_items recs)
                in Inr (recs @ rec))))"

text \<open>The loop of step 4 over the seeds, stopping at the first exception.\<close>

fun qrecsys_expand ::
  "('d::linorder) argsort \<Rightarrow> 'd distance \<Rightarrow> recommender \<Rightarrow> options \<Rightarrow> nat list \<Rightarrow> nat list \<Rightarrow> error + nat list"
where
  "qrecsys_expand argsort distance R opts [] recs = Inr recs"
| "qrecsys_expand argsort distance R opts (item_id # item_ids) recs =
     (case qrecsys_expand_seed argsort distance R opts recs item_id of
        Inl e \<Rightarrow> Inl e
      | Inr recs' \<Rightarrow> qrecsys_expand argsort distance R opts item_ids recs')"

text \<open>Steps 1 to 5: the index list \<open>recs\<close> after the truncation.\<close>

definition qrecsys_recommend_indices ::
  "('d::linorder) argsort \<Rightarrow> 'd distance \<Rightarrow> recommender \<Rightarrow> string \<Rightarrow> options \<Rightarrow> error + nat list" where
  "qrecsys_recommend_indices argsort distance R query opts =
     (case qrecsys_seeds argsort distance R query opts of
        Inl e \<Rightarrow> Inl e
      | Inr item_ids \<Rightarrow>
          (case qrecsys_expand argsort distance R opts item_ids [] of
             Inl e \<Rightarrow> Inl e
           | Inr recs \<Rightarrow> Inr (slice_to (n_to_recommend opts) recs)))"

text \<open>
  Step 6, \<open>[self.items.loc[idx].item() for idx in recs]\<close>: the title of every index,
  \<open>KeyError\<close> at the first index the catalog does not have.
\<close>

fun titles_of :: "(nat \<rightharpoonup> string) \<Rightarrow> nat list \<Rightarrow> error + string list" where
  "titles_of catalog [] = Inr []"
| "titles_of catalog (idx # recs) =
     (case catalog idx of
        None \<Rightarrow> Inl KeyError
      | Some title \<Rightarrow>
          (case titles_of catalog recs of
             Inl e \<Rightarrow> Inl e
           | Inr titles \<Rightarrow> Inr (title # titles)))"

definition qrecsys_recommend ::
  "('d::linorder) argsort \<Rightarrow> 'd distance \<Rightarrow> recommender \<Rightarrow> string \<Rightarrow> options \<Rightarrow> error + string list" where
  "qrecsys_recommend argsort distance R query opts =
     (case qrecsys_recommend_indices argsort distance R query opts of
        Inl e \<Rightarrow> Inl e
      | Inr recs \<Rightarrow> titles_of (items R) recs)"

section \<open>The recommender of \<open>recsys_pipeline.py\<close>\<close>

text \<open>
  \<open>recsys_pipeline.py\<close> declares \<open>def _find_nearest(x, y, K)\<close> inside the class, without
  \<open>self\<close>, and calls it as \<open>self._find_nearest(x, y, K=K)\<close> all the same: the instance
  and the two arrays are the three positional arguments.
\<close>

definition pipeline_find_nearest ::
  "('d::linorder) argsort \<Rightarrow> 'd distance \<Rightarrow> matrix \<Rightarrow> matrix \<Rightarrow> int \<Rightarrow> error + nat list" where
  "pipeline_find_nearest argsort distance x y K =
     (case bind_arguments [''x'', ''y'', ''K''] [Self, Array x, Array y]
             [(''K'', Integer K)] of
        Inl e \<Rightarrow> Inl e
      | Inr env \<Rightarrow> run_find_nearest argsort distance env)"

definition pipeline_expand_seed ::
  "('d::linorder) argsort \<Rightarrow> 'd distance \<Rightarrow> recommender \<Rightarrow> options \<Rightarrow> nat list \<Rightarrow> nat \<Rightarrow> error + nat list"
where
  "pipeline_expand_seed argsort distance R opts recs item_id =
     (case row_of (embeds_mf R) item_id of
        Inl e \<Rightarrow> Inl e
      | Inr x \<Rightarrow>
          (case pipeline_find_nearest argsort distance x (embeds_mf R)
                  (K_mf opts * mf_buffer_multiplier opts) of
             Inl e \<Rightarrow> Inl e
           | Inr mf_items \<Rightarrow>
               (let rec = slice_to (K_mf opts) (setdiff1d mf_items recs)
                in Inr (recs @ rec))))"

fun pipeline_expand ::
  "('d::linorder) argsort \<Rightarrow> 'd distance \<Rightarrow> recommender \<Rightarrow> options \<Rightarrow> nat list \<Rightarrow> nat list \<Rightarrow> error + nat list"
where
  "pipeline_expand argsort distance R opts [] recs = Inr recs"
| "pipeline_expand argsort distance R opts (item_id # item_ids) recs =
     (case pipeline_expand_seed argsort distance R opts recs item_id of
        Inl e \<Rightarrow> Inl e
      | Inr recs' \<Rightarrow> pipeline_expand argsort distance R opts item_ids recs')"

text \<open>The whole of \<open>recommend\<close>, which returns the truncated index list itself.\<close>

definition pipeline_recommend ::
  "('d::linorder) argsort \<Rightarrow> 'd distance \<Rightarrow> recommender \<Rightarrow> string \<Rightarrow> options \<Rightarrow> error + nat list" where
  "pipeline_recommend argsort distance R query opts =
     (let encoded_query = encoder R [query]
      in case pipeline_find_nearest argsort distance encoded_query (embeds_use R)
                (K_use opts * use_buffer_multiplier opts) of
           Inl e \<Rightarrow> Inl e
         | Inr item_ids \<Rightarrow>
             (let item_ids = filter (\<lambda>item_id. item_id \<in> interacted_items R) item_ids;
                  item_ids = slice_to (K_use opts) item_ids
              in case pipeline_expand argsort distance R opts item_ids [] of
                   Inl e \<Rightarrow> Inl e
                 | Inr recs \<Rightarrow> Inr (slice_to (n_to_recommend opts) recs)))"

section \<open>Well-formed arrays\<close>

text \<open>
  Every NumPy array is rectangular: all rows of a two-dimensional array have the width
  of the array.
\<close>

definition is_matrix :: "matrix \<Rightarrow> bool" where
  "is_matrix m = (\<forall>r \<in> set m. length r = ncols m)"

section \<open>The steps as the specification words them\<close>

text \<open>
  Step 5 of the specification for one seed: from the fetched neighbours remove the
  indices already accumulated, keeping the order of the fetch, and append the first
  \<open>k\<close> survivors.
\<close>

definition spec_expand_seed :: "nat \<Rightarrow> nat list \<Rightarrow> nat list \<Rightarrow> nat list" where
  "spec_expand_seed k recs fetched = recs @ take k (filter (\<lambda>i. i \<notin> set recs) fetched)"

section \<open>Example data\<close>

text \<open>
  Six items with one-dimensional embeddings. From the query encoding \<open>0\<close> the semantic
  rows lie in the order 3, 4, 2, 1, 0, 5; from item 3 the collaborative rows lie in the
  order 3, 4, 1, 0, 5, 2 and from item 1 in the order 1, 4, 0, 3, 5, 2. No two
  distances from one point are equal, so every argsort that meets the contract returns
  the same lists on these data.
\<close>

definition example_catalog :: "nat \<rightharpoonup> string" where
  "example_catalog =
     [0 \<mapsto> ''Emma'', 1 \<mapsto> ''Ulysses'', 2 \<mapsto> ''Dracula'', 3 \<mapsto> ''Walden'',
      4 \<mapsto> ''Hamlet'', 5 \<mapsto> ''Emma'']"

definition example_recommender :: recommender where
  "example_recommender =
     \<lparr>encoder = (\<lambda>texts. map (\<lambda>t. [0]) texts),
      embeds_mf = [[9], [5], [20], [0], [2], [13]],
      embeds_use = [[5], [4], [3], [1], [2], [6]],
      items = example_catalog,
      interacted_items = {1, 3, 5}\<rparr>"

definition example_options :: "int \<Rightarrow> int \<Rightarrow> int \<Rightarrow> options" where
  "example_options k_use k_mf n =
     \<lparr>K_use = k_use, K_mf = k_mf, n_to_recommend = n,
      use_buffer_multiplier = 3, mf_buffer_multiplier = 2\<rparr>"

section \<open>Properties of float64 rounding\<close>

lemma round_half_even_of_int: "round_half_even (of_int n) = n"
  by (simp add: round_half_even_def)

lemma round_half_even_error: "\<bar>of_int (round_half_even x) - x\<bar> \<le> 1 / 2"
proof -
  have "of_int \<lfloor>x\<rfloor> \<le> x" and "x < of_int \<lfloor>x\<rfloor> + 1"
    by linarith+
  then show ?thesis
    by (auto simp: round_half_even_def Let_def)
qed

lemma fl_exponent:
  assumes "x \<noteq> 0" and "\<lfloor>log 2 \<bar>x\<bar>\<rfloor> = e + 52"
  shows "fl x = of_int (round_half_even (x / 2 powr of_int e)) * 2 powr of_int e"
  using assms by (simp add: fl_def)

lemma fl_binade:
  fixes k :: nat
  assumes "2 ^ (52 + k) \<le> \<bar>x\<bar>" and "\<bar>x\<bar> < 2 ^ (53 + k)"
  shows "fl x = of_int (round_half_even (x / 2 ^ k)) * 2 ^ k"
proof -
  have "(0::real) < 2 ^ (52 + k)"
    by simp
  with assms(1) have pos: "0 < \<bar>x\<bar>"
    by linarith
  have "2 powr real_of_int (int (52 + k)) \<le> \<bar>x\<bar>"
    using assms(1) by (simp only: powr_realpow of_int_of_nat_eq zero_less_numeral)
  moreover have "\<bar>x\<bar> < 2 powr real_of_int (int (52 + k) + 1)"
  proof -
    have "int (52 + k) + 1 = int (53 + k)"
      by simp
    then show ?thesis
      using assms(2) by (simp only: powr_realpow of_int_of_nat_eq zero_less_numeral)
  qed
  ultimately have "\<lfloor>log 2 \<bar>x\<bar>\<rfloor> = int (52 + k)"
    using pos by (subst floor_log_eq_powr_iff) auto
  then have "\<lfloor>log 2 \<bar>x\<bar>\<rfloor> = int k + 52"
    by simp
  with pos have "fl x = of_int (round_half_even (x / 2 powr of_int (int k))) * 2 powr of_int (int k)"
    by (intro fl_exponent) auto
  then show ?thesis
    by (simp add: powr_realpow)
qed

lemma fl_int:
  assumes "x \<in> \<int>" and "\<bar>x\<bar> < 2 ^ 53"
  shows "fl x = x"
proof (cases "x = 0")
  case True
  then show ?thesis by (simp add: fl_def)
next
  case False
  from assms(1) obtain m :: int where m: "x = of_int m"
    by (auto elim: Ints_cases)
  with False have "1 \<le> \<bar>x\<bar>"
    by (simp flip: of_int_abs) 
  then have lo: "0 \<le> log 2 \<bar>x\<bar>"
    by simp
  have "\<bar>x\<bar> < 2 powr 53"
    using assms(2) by simp
  then have hi: "log 2 \<bar>x\<bar> < 53"
    using False by (subst log_less_iff) auto
  define j where "j = nat (52 - \<lfloor>log 2 \<bar>x\<bar>\<rfloor>)"
  have e: "\<lfloor>log 2 \<bar>x\<bar>\<rfloor> - 52 = - int j"
    using lo hi unfolding j_def by linarith
  have p: "(2::real) powr of_int (- int j) = 1 / 2 ^ j"
    by (simp add: powr_minus powr_realpow field_simps)
  have "x / (1 / 2 ^ j) = of_int (m * 2 ^ j)"
    by (simp add: m)
  then have r: "round_half_even (x / (1 / 2 ^ j)) = m * 2 ^ j"
    by (simp only: round_half_even_of_int)
  have "\<lfloor>log 2 \<bar>x\<bar>\<rfloor> = - int j + 52"
    using e by simp
  from fl_exponent[OF False this]
  have "fl x = of_int (round_half_even (x / (1 / 2 ^ j))) * (1 / 2 ^ j)"
    by (simp only: p)
  also have "\<dots> = of_int (m * 2 ^ j) * (1 / 2 ^ j)"
    by (simp only: r)
  also have "\<dots> = x"
    by (simp add: m)
  finally show ?thesis .
qed

lemma fl_error: "\<bar>fl x - x\<bar> \<le> \<bar>x\<bar> / 2 ^ 53"
proof (cases "x = 0")
  case True
  then show ?thesis by (simp add: fl_def)
next
  case False
  define e where "e = \<lfloor>log 2 \<bar>x\<bar>\<rfloor> - 52"
  define u :: real where "u = 2 powr of_int e"
  have u: "0 < u"
    by (simp add: u_def)
  have flx: "fl x = of_int (round_half_even (x / u)) * u"
    using False by (simp add: fl_def e_def u_def)
  have "fl x - x = (of_int (round_half_even (x / u)) - x / u) * u"
    using u by (simp add: flx field_simps)
  then have "\<bar>fl x - x\<bar> = \<bar>of_int (round_half_even (x / u)) - x / u\<bar> * u"
    using u by (simp add: abs_mult)
  also have "\<dots> \<le> (1 / 2) * u"
    using u round_half_even_error[of "x / u"] by (intro mult_right_mono) auto
  finally have bound: "\<bar>fl x - x\<bar> \<le> u / 2"
    by simp
  have "2 powr of_int \<lfloor>log 2 \<bar>x\<bar>\<rfloor> \<le> 2 powr log 2 \<bar>x\<bar>"
    by (intro powr_mono) auto
  also have "\<dots> = \<bar>x\<bar>"
    using False by simp
  finally have "2 powr of_int \<lfloor>log 2 \<bar>x\<bar>\<rfloor> \<le> \<bar>x\<bar>" .
  moreover have "u = 2 powr of_int \<lfloor>log 2 \<bar>x\<bar>\<rfloor> / 2 ^ 52"
    by (simp add: u_def e_def powr_diff powr_realpow[of 2 52, simplified])
  ultimately have "u \<le> \<bar>x\<bar> / 2 ^ 52"
    by (simp add: divide_right_mono)
  with bound show ?thesis
    by simp
qed

lemma fl_of_int: "\<bar>k\<bar> < 2 ^ 53 \<Longrightarrow> fl (of_int k) = of_int k"
proof -
  assume "\<bar>k\<bar> < 2 ^ 53"
  then have "\<bar>real_of_int k\<bar> < 2 ^ 53"
    by (metis of_int_abs of_int_less_numeral_power_cancel_iff)
  then show ?thesis
    by (intro fl_int) auto
qed

lemma fl_pos: "0 < x \<Longrightarrow> 0 < fl x"
proof -
  assume x: "0 < x"
  have "x / 2 ^ 53 < x"
    using x by (simp add: field_simps)
  with fl_error[of x] x show ?thesis
    by linarith
qed

lemma fl_bounds:
  assumes "0 \<le> a" and "a \<le> x" and "x \<le> b"
  shows "a - b / 2 ^ 53 \<le> fl x" and "fl x \<le> b + b / 2 ^ 53"
proof -
  have "\<bar>x\<bar> / 2 ^ 53 \<le> b / 2 ^ 53"
    using assms by (simp add: divide_right_mono)
  with fl_error[of x] assms show "a - b / 2 ^ 53 \<le> fl x" and "fl x \<le> b + b / 2 ^ 53"
    by linarith+
qed

lemma float64_distance_small:
  assumes "a \<in> \<int>" and "b \<in> \<int>" and "\<bar>a\<bar> \<le> 2 ^ 25" and "\<bar>b\<bar> \<le> 2 ^ 25"
  shows "float64_distance [a] [b] = \<bar>a - b\<bar>"
proof -
  from assms obtain m n :: int where a: "a = of_int m" and b: "b = of_int n"
    by (auto elim!: Ints_cases)
  have m: "\<bar>m\<bar> \<le> 2 ^ 25" and n: "\<bar>n\<bar> \<le> 2 ^ 25"
    using assms(3,4) unfolding a b by (simp_all flip: of_int_abs)
  have mn: "\<bar>m * n\<bar> \<le> 2 ^ 25 * 2 ^ 25"
    unfolding abs_mult using m n by (intro mult_mono) auto
  have mm: "\<bar>m * m\<bar> \<le> 2 ^ 25 * 2 ^ 25"
    unfolding abs_mult using m by (intro mult_mono) auto
  have nn: "\<bar>n * n\<bar> \<le> 2 ^ 25 * 2 ^ 25"
    unfolding abs_mult using n by (intro mult_mono) auto
  have dot_ab: "float64_dot [a] [b] = of_int (m * n)"
    using mn fl_of_int[of "m * n"] by (simp add: float64_dot_def a b)
  have dot_aa: "float64_dot [a] [a] = of_int (m * m)"
    using mm fl_of_int[of "m * m"] by (simp add: float64_dot_def a)
  have dot_bb: "float64_dot [b] [b] = of_int (n * n)"
    using nn fl_of_int[of "n * n"] by (simp add: float64_dot_def b)
  have b0: "\<bar>- 2 * (m * n)\<bar> < 2 ^ 53"
    using mn by simp
  have s0: "fl (- 2 * of_int (m * n)) = of_int (- 2 * (m * n))"
    using fl_of_int[OF b0] by simp
  have mn': "\<bar>m * n\<bar> \<le> 1125899906842624" and mm': "\<bar>m * m\<bar> \<le> 1125899906842624"
    using mn mm by simp_all
  have "\<bar>- 2 * (m * n) + m * m\<bar> < 9007199254740992"
    using mn' mm' by linarith
  then have b1: "\<bar>- 2 * (m * n) + m * m\<bar> < 2 ^ 53"
    by simp
  have s1: "fl (of_int (- 2 * (m * n)) + of_int (m * m)) = of_int (- 2 * (m * n) + m * m)"
    using fl_of_int[OF b1] by simp
  have sq: "- 2 * (m * n) + m * m + n * n = (m - n) * (m - n)"
    by (simp add: algebra_simps)
  have mn2: "\<bar>m - n\<bar> \<le> 2 ^ 26"
    using m n by simp
  have "\<bar>(m - n) * (m - n)\<bar> \<le> 2 ^ 26 * 2 ^ 26"
    unfolding abs_mult using mn2 by (intro mult_mono) auto
  then have b2: "\<bar>(m - n) * (m - n)\<bar> < 2 ^ 53"
    by simp
  have "fl (of_int (- 2 * (m * n) + m * m + n * n)) = of_int ((m - n) * (m - n))"
    using fl_of_int[OF b2] by (simp only: sq)
  then have s2: "fl (of_int (- 2 * (m * n) + m * m) + of_int (n * n)) = of_int ((m - n) * (m - n))"
    by simp
  have nonneg: "max (real_of_int ((m - n) * (m - n))) 0 = (of_int (m - n))\<^sup>2"
    by (simp add: power2_eq_square)
  have "float64_distance [a] [b] = fl (sqrt ((of_int (m - n))\<^sup>2))"
    unfolding float64_distance_def dot_ab dot_aa dot_bb s0 s1 s2 nonneg ..
  also have "\<dots> = fl (of_int \<bar>m - n\<bar>)"
    by simp
  also have "\<dots> = of_int \<bar>m - n\<bar>"
    using mn2 by (intro fl_of_int) simp
  finally show ?thesis
    by (simp add: a b)
qed

text \<open>
  Seen from the row \<open>2^30\<close>, the row \<open>2^30 - 9\<close> gets the computed distance \<open>sqrt 128\<close>
  (rounded) and the row \<open>2^30 + 10\<close> the computed distance 0: the square of the first
  is rounded up by 47 and the square of the second is rounded down by 100.
\<close>

lemma near_products:
  shows "fl 1152921494943170560 = 1152921494943170560"
    and "fl 1152921504606846976 = 1152921504606846976"
    and "fl 1152921485279494225 = 1152921485279494272"
    and "fl 1152921485279494272 = 1152921485279494272"
    and "fl (- 2305842989886341120) = - 2305842989886341120"
    and "fl (- 1152921485279494144) = - 1152921485279494144"
    and "fl 128 = 128"
proof -
  show "fl 1152921494943170560 = 1152921494943170560"
    by (subst fl_binade[where k=7]) (simp_all add: round_half_even_def)
  show "fl 1152921504606846976 = 1152921504606846976"
    by (subst fl_binade[where k=8]) (simp_all add: round_half_even_def)
  show "fl 1152921485279494225 = 1152921485279494272"
    by (subst fl_binade[where k=7]) (simp_all add: round_half_even_def)
  show "fl 1152921485279494272 = 1152921485279494272"
    by (subst fl_binade[where k=7]) (simp_all add: round_half_even_def)
  show "fl (- 2305842989886341120) = - 2305842989886341120"
    by (subst fl_binade[where k=8]) (simp_all add: round_half_even_def)
  show "fl (- 1152921485279494144) = - 1152921485279494144"
    by (subst fl_binade[where k=7]) (simp_all add: round_half_even_def)
  show "fl 128 = 128"
    by (simp add: fl_int)
qed

lemma far_products:
  shows "fl 1152921515344265216 = 1152921515344265216"
    and "fl 1152921526081683556 = 1152921526081683456"
    and "fl 1152921526081683456 = 1152921526081683456"
    and "fl (- 2305843030688530432) = - 2305843030688530432"
    and "fl (- 1152921526081683456) = - 1152921526081683456"
    and "fl 0 = 0"
proof -
  show "fl 1152921515344265216 = 1152921515344265216"
    by (subst fl_binade[where k=8]) (simp_all add: round_half_even_def)
  show "fl 1152921526081683556 = 1152921526081683456"
    by (subst fl_binade[where k=8]) (simp_all add: round_half_even_def)
  show "fl 1152921526081683456 = 1152921526081683456"
    by (subst fl_binade[where k=8]) (simp_all add: round_half_even_def)
  show "fl (- 2305843030688530432) = - 2305843030688530432"
    by (subst fl_binade[where k=9]) (simp_all add: round_half_even_def)
  show "fl (- 1152921526081683456) = - 1152921526081683456"
    by (subst fl_binade[where k=8]) (simp_all add: round_half_even_def)
  show "fl 0 = 0"
    by (simp add: fl_def)
qed

lemma float64_distance_near: "float64_distance [1073741824] [1073741815] = fl (sqrt 128)"
  by (simp add: float64_distance_def float64_dot_def near_products)

lemma float64_distance_far: "float64_distance [1073741824] [1073741834] = 0"
  by (simp add: float64_distance_def float64_dot_def near_products far_products)

lemma cancellation_products:
  shows "fl 9999999900000000 = 9999999900000000"
    and "fl 9999999800000001 = 9999999800000000"
    and "fl 9999999800000000 = 9999999800000000"
    and "fl 10000000000000000 = 10000000000000000"
    and "fl (- 19999999800000000) = - 19999999800000000"
    and "fl (- 9999999800000000) = - 9999999800000000"
    and "fl (- 20000000000000000) = - 20000000000000000"
    and "fl (- 10000000000000000) = - 10000000000000000"
proof -
  show "fl 9999999900000000 = 9999999900000000"
    by (subst fl_binade[where k=1]) (simp_all add: round_half_even_def)
  show "fl 9999999800000001 = 9999999800000000"
    by (subst fl_binade[where k=1]) (simp_all add: round_half_even_def)
  show "fl 9999999800000000 = 9999999800000000"
    by (subst fl_binade[where k=1]) (simp_all add: round_half_even_def)
  show "fl 10000000000000000 = 10000000000000000"
    by (subst fl_binade[where k=1]) (simp_all add: round_half_even_def)
  show "fl (- 19999999800000000) = - 19999999800000000"
    by (subst fl_binade[where k=2]) (simp_all add: round_half_even_def)
  show "fl (- 9999999800000000) = - 9999999800000000"
    by (subst fl_binade[where k=1]) (simp_all add: round_half_even_def)
  show "fl (- 20000000000000000) = - 20000000000000000"
    by (subst fl_binade[where k=2]) (simp_all add: round_half_even_def)
  show "fl (- 10000000000000000) = - 10000000000000000"
    by (subst fl_binade[where k=1]) (simp_all add: round_half_even_def)
qed

lemma float64_distance_cancellation:
  "float64_distance [100000000] [99999999] = 0"
  "float64_distance [100000000] [100000000] = 0"
  by (simp_all add: float64_distance_def float64_dot_def cancellation_products far_products(6))

lemma sqrt_bounds:
  shows "sqrt 2 \<le> 3 / 2" and "3 \<le> sqrt 10" and "sqrt 10 \<le> 4"
    and "5 \<le> sqrt 29" and "sqrt 29 \<le> 6"
proof -
  show "sqrt 2 \<le> 3 / 2"
    by (rule real_le_lsqrt) (simp_all add: power2_eq_square)
  show "3 \<le> sqrt 10"
    by (rule real_le_rsqrt) (simp add: power2_eq_square)
  show "sqrt 10 \<le> 4"
    by (rule real_le_lsqrt) (simp_all add: power2_eq_square)
  show "5 \<le> sqrt 29"
    by (rule real_le_rsqrt) (simp add: power2_eq_square)
  show "sqrt 29 \<le> 6"
    by (rule real_le_lsqrt) (simp_all add: power2_eq_square)
qed

lemma fl_sqrt_order:
  "fl (sqrt 2) < fl (sqrt 10)" "fl (sqrt 10) < fl (sqrt 29)" "fl (sqrt 2) < fl (sqrt 29)"
proof -
  have a: "fl (sqrt 2) \<le> 3 / 2 + (3 / 2) / 2 ^ 53"
    using fl_bounds(2)[of 0 "sqrt 2" "3 / 2"] sqrt_bounds by simp
  have b: "3 - 4 / 2 ^ 53 \<le> fl (sqrt 10)" "fl (sqrt 10) \<le> 4 + 4 / 2 ^ 53"
    using fl_bounds[of 3 "sqrt 10" 4] sqrt_bounds by simp_all
  have c: "5 - 6 / 2 ^ 53 \<le> fl (sqrt 29)"
    using fl_bounds(1)[of 5 "sqrt 29" 6] sqrt_bounds by simp
  show "fl (sqrt 2) < fl (sqrt 10)" "fl (sqrt 10) < fl (sqrt 29)" "fl (sqrt 2) < fl (sqrt 29)"
    using a b c by simp_all
qed

lemma float64_distance_rows:
  "float64_distance [0, 0] [3, 1] = fl (sqrt 10)"
  "float64_distance [0, 0] [1, 1] = fl (sqrt 2)"
  "float64_distance [0, 0] [2, 5] = fl (sqrt 29)"
  by (simp_all add: float64_distance_def float64_dot_def fl_int)

lemma euclidean_single: "euclidean [a] [b] = \<bar>a - b\<bar>"
  by (simp add: euclidean_def)

section \<open>Properties of the finder\<close>

lemma qrecsys_find_nearest_body:
  "qrecsys_find_nearest argsort distance x y K = find_nearest_body argsort distance x y K"
  by (simp add: qrecsys_find_nearest_def bind_arguments_def run_find_nearest_def)

lemma pipeline_find_nearest_TypeError:
  "pipeline_find_nearest argsort distance x y K = Inl TypeError"
  by (simp add: pipeline_find_nearest_def bind_arguments_def)

lemma slice_to_take: "\<exists>m. slice_to k xs = take m xs"
  by (auto simp: slice_to_def)

lemma slice_to_nonneg: "0 \<le> k \<Longrightarrow> slice_to k xs = take (nat k) xs"
  by (simp add: slice_to_def)

lemma euclidean_distances_single:
  "euclidean_distances distance [q] y = Inr dists \<Longrightarrow> dists = [map (distance q) y]"
  by (auto simp: euclidean_distances_def split: if_splits)

lemma find_nearest_body_single:
  assumes "find_nearest_body argsort distance [q] y K = Inr res"
  shows "res = slice_to K (argsort (map (distance q) y))"
  using assms
  by (auto simp: find_nearest_body_def Let_def split: sum.splits list.splits
           dest!: euclidean_distances_single)

lemma find_nearest_body_raises:
  "find_nearest_body argsort distance x y K = Inl e \<longleftrightarrow>
     e = ValueError \<and>
     (x = [] \<or> ncols x = 0 \<or> y = [] \<or> ncols y = 0 \<or> ncols x \<noteq> ncols y)"
  by (cases x)
     (auto simp: find_nearest_body_def euclidean_distances_def Let_def split: list.splits)

lemma stable_argsort_contract: "argsort_contract stable_argsort"
  unfolding argsort_contract_def stable_argsort_def
  by (simp add: sorted_sort_key)

lemma argsort_contractD:
  assumes "argsort_contract argsort"
  shows "distinct (argsort d)" and "set (argsort d) = {0..<length d}"
    and "sorted (map (\<lambda>i. d ! i) (argsort d))"
  using assms by (simp_all add: argsort_contract_def)

lemma argsort_length:
  assumes "argsort_contract argsort"
  shows "length (argsort d) = length d"
proof -
  have "length (argsort d) = card (set (argsort d))"
    using argsort_contractD(1)[OF assms] by (simp add: distinct_card)
  then show ?thesis
    by (simp add: argsort_contractD(2)[OF assms])
qed

lemma slice_to_length_nonneg:
  "0 \<le> k \<Longrightarrow> length (slice_to k xs) = min (nat k) (length xs)"
  by (simp add: slice_to_def)

lemma set_slice_to: "set (slice_to k xs) \<subseteq> set xs"
  by (auto simp: slice_to_def dest: in_set_takeD)

lemma distinct_slice_to: "distinct xs \<Longrightarrow> distinct (slice_to k xs)"
  by (simp add: slice_to_def)

lemma find_nearest_body_ok:
  assumes "y \<noteq> []" and "q \<noteq> []" and "ncols y = length q"
  shows "find_nearest_body argsort distance [q] y K =
           Inr (slice_to K (argsort (map (distance q) y)))"
  using assms
  by (simp add: find_nearest_body_def euclidean_distances_def ncols_def)

text \<open>The body run on the memory returns what the body returns, and only appends.\<close>

lemma find_nearest_memory_result:
  assumes "memory ! x = Floats X" and "memory ! y = Floats Y"
  shows "fst (find_nearest_memory argsort distance memory x y K) =
           find_nearest_body argsort distance X Y K"
proof (cases "euclidean_distances distance X Y")
  case (Inl e)
  then show ?thesis
    using assms by (simp add: find_nearest_memory_def find_nearest_body_def)
next
  case (Inr dists)
  then show ?thesis
    using assms
    by (cases "rev (map argsort dists)")
       (simp_all add: find_nearest_memory_def find_nearest_body_def Let_def)
qed

lemma find_nearest_memory_frame:
  "take (length memory) (snd (find_nearest_memory argsort distance memory x y K)) = memory"
proof (cases "memory ! x")
  case x: (Floats X)
  show ?thesis
  proof (cases "memory ! y")
    case y: (Floats Y)
    show ?thesis
    proof (cases "euclidean_distances distance X Y")
      case (Inl e)
      then show ?thesis
        using x y by (simp add: find_nearest_memory_def)
    next
      case (Inr dists)
      then show ?thesis
        using x y
        by (cases "rev (map argsort dists)")
           (simp_all add: find_nearest_memory_def Let_def)
    qed
  qed (simp_all add: find_nearest_memory_def x)
qed (simp_all add: find_nearest_memory_def)

subsection \<open>Evaluation of the finder\<close>

lemmas finder_defs =
  qrecsys_find_nearest_body find_nearest_body_def euclidean_distances_def ncols_def
  stable_argsort_def slice_to_def upt_rec Let_def

lemma fl_sqrt_compare:
  shows "fl (sqrt 2) \<le> fl (sqrt 10)" and "\<not> fl (sqrt 10) \<le> fl (sqrt 2)"
    and "fl (sqrt 10) \<le> fl (sqrt 29)" and "\<not> fl (sqrt 29) \<le> fl (sqrt 10)"
    and "fl (sqrt 2) \<le> fl (sqrt 29)" and "\<not> fl (sqrt 29) \<le> fl (sqrt 2)"
  using fl_sqrt_order by simp_all

lemma three_rows:
  shows "qrecsys_find_nearest stable_argsort float64_distance
           [[0, 0]] [[3, 1], [1, 1], [2, 5]] 2 = Inr [1, 0]"
    and "qrecsys_find_nearest stable_argsort float64_distance
           [[0, 0]] [[3, 1], [1, 1], [2, 5]] 7 = Inr [1, 0, 2]"
    and "qrecsys_find_nearest stable_argsort float64_distance
           [[0, 0]] [[3, 1], [1, 1], [2, 5]] (- 1) = Inr [1, 0]"
  by (simp_all add: finder_defs float64_distance_rows fl_sqrt_compare)

text \<open>
  On the two rows \<open>2^30 - 9\<close> and \<open>2^30 + 10\<close> seen from \<open>2^30\<close> the computed distances
  are different, so the result does not depend on how the argsort treats equal values:
  every argsort that meets the contract returns the second row first.
\<close>

lemma rounding_inverts_order:
  assumes contract: "argsort_contract argsort"
  shows "qrecsys_find_nearest argsort float64_distance
           [[1073741824]] [[1073741815], [1073741834]] 2 = Inr [1, 0]"
proof -
  define d :: "real list" where "d = [fl (sqrt 128), 0]"
  have d0: "d ! 0 = fl (sqrt 128)" and d1: "d ! 1 = 0" and dlen: "length d = 2"
    by (simp_all add: d_def)
  have pos: "\<not> fl (sqrt 128) \<le> 0"
    using fl_pos[of "sqrt 128"] by simp
  have len: "length (argsort d) = 2"
    using argsort_length[OF contract, of d] by (simp add: dlen)
  then obtain a b where ab: "argsort d = [a, b]"
    by (auto simp: length_Suc_conv numeral_2_eq_2)
  have "a \<in> set (argsort d)" and "b \<in> set (argsort d)"
    by (simp_all add: ab)
  then have mem: "a \<in> {0..<2}" "b \<in> {0..<2}"
    by (simp_all only: argsort_contractD(2)[OF contract] dlen)
  have ne: "a \<noteq> b"
    using argsort_contractD(1)[OF contract, of d] by (simp add: ab)
  have "sorted (map (\<lambda>i. d ! i) (argsort d))"
    by (rule argsort_contractD(3)[OF contract])
  then have le: "d ! a \<le> d ! b"
    by (simp add: ab)
  from mem have "a = 0 \<or> a = 1" and "b = 0 \<or> b = 1"
    by auto
  with ne le pos d0 d1 have "a = 1 \<and> b = 0"
    by auto
  then have order: "argsort d = [1, 0]"
    by (simp add: ab)
  have "qrecsys_find_nearest argsort float64_distance
           [[1073741824]] [[1073741815], [1073741834]] 2
          = Inr (slice_to 2 (argsort (map (float64_distance [1073741824])
               [[1073741815], [1073741834]])))"
    by (simp only: qrecsys_find_nearest_body)
       (rule find_nearest_body_ok, simp_all add: ncols_def)
  also have "map (float64_distance [1073741824]) [[1073741815], [1073741834]] = d"
    by (simp add: d_def float64_distance_near float64_distance_far)
  finally show ?thesis
    by (simp add: order slice_to_def)
qed

text \<open>
  Claim C1, as the code has it. Called with a query of one row, \<open>_find_nearest\<close> returns
  its indices in ascending order of the distances that \<open>euclidean_distances\<close> computed:
  of two positions \<open>p1 < p2\<close> of the returned list, the computed distance of the row
  named at \<open>p1\<close> is at most that of the row named at \<open>p2\<close>. The reversal \<open>[::-1]\<close> does
  not undo this, since it reverses the single row of the index array as a whole.
\<close>

theorem find_nearest_nearest_first:
  assumes contract: "argsort_contract argsort"
    and ret: "qrecsys_find_nearest argsort distance [q] y K = Inr res"
    and lt: "p1 < p2" and len: "p2 < length res"
  shows "distance q (y ! (res ! p1)) \<le> distance q (y ! (res ! p2))"
proof -
  define d where "d = map (distance q) y"
  have res: "res = slice_to K (argsort d)"
    using ret by (simp add: qrecsys_find_nearest_body d_def find_nearest_body_single)
  obtain m where m: "res = take m (argsort d)"
    using res slice_to_take by blast
  have "sorted (map (\<lambda>i. d ! i) (argsort d))"
    by (rule argsort_contractD(3)[OF contract])
  then have "sorted (take m (map (\<lambda>i. d ! i) (argsort d)))"
    by (rule sorted_wrt_take)
  then have srt: "sorted (map (\<lambda>i. d ! i) res)"
    by (simp add: m take_map)
  have "map (\<lambda>i. d ! i) res ! p1 \<le> map (\<lambda>i. d ! i) res ! p2"
    using srt lt len by (simp add: sorted_iff_nth_mono_less)
  then have le: "d ! (res ! p1) \<le> d ! (res ! p2)"
    using lt len by simp
  have inb: "i < length y" if "i \<in> set res" for i
  proof -
    have "i \<in> set (argsort d)"
      using that m by (auto dest: in_set_takeD)
    then show ?thesis
      by (simp add: argsort_contractD(2)[OF contract] d_def)
  qed
  have "res ! p1 < length y" and "res ! p2 < length y"
    using lt len by (auto intro: inb)
  then show ?thesis
    using le by (simp add: d_def)
qed

theorem find_nearest_nearest_first_witness:
  "qrecsys_find_nearest stable_argsort float64_distance
     [[0, 0]] [[3, 1], [1, 1], [2, 5]] 2 = Inr [1, 0]
   \<and> float64_distance [0, 0] ([[3, 1], [1, 1], [2, 5]] ! ([1, 0] ! 0))
       \<le> float64_distance [0, 0] ([[3, 1], [1, 1], [2, 5]] ! ([1, 0] ! 1))"
  using find_nearest_nearest_first [OF stable_argsort_contract three_rows(1), of 0 1]
    three_rows(1)
  by simp

text \<open>
  Claim C1 as the specification states it, with the Euclidean distance itself, fails
  where rounding changes the order. The query is \<open>2^30 = 1073741824\<close>, with square
  \<open>2^60\<close>. Row 0 is \<open>2^30 - 9\<close>, at distance 9: its square \<open>2^60 - 9 * 2^31 + 81\<close> lies
  below \<open>2^60\<close>, where float64 numbers are 128 apart, and is rounded to
  \<open>2^60 - 9 * 2^31 + 128\<close>; the computed sum is 128. Row 1 is \<open>2^30 + 10\<close>, at distance
  10: its square \<open>2^60 + 10 * 2^31 + 100\<close> lies above \<open>2^60\<close>, where float64 numbers are
  256 apart, and is rounded to \<open>2^60 + 10 * 2^31\<close>; the computed sum is 0. All other
  intermediate values are exact. Row 1 is returned first.
\<close>

theorem find_nearest_rounding_counterexample:
  "qrecsys_find_nearest stable_argsort float64_distance
     [[1073741824]] [[1073741815], [1073741834]] 2 = Inr [1, 0]
   \<and> euclidean [1073741824] [1073741815] = 9
   \<and> euclidean [1073741824] [1073741834] = 10"
proof -
  have "\<not> fl (sqrt 128) \<le> 0"
    using fl_pos[of "sqrt 128"] by simp
  then have "qrecsys_find_nearest stable_argsort float64_distance
     [[1073741824]] [[1073741815], [1073741834]] 2 = Inr [1, 0]"
    by (simp add: finder_defs float64_distance_near float64_distance_far)
  then show ?thesis
    by (simp add: euclidean_single)
qed

text \<open>
  Claim C2. For a query of one row whose width is that of the reference matrix (at
  least one column), a reference matrix of \<open>N \<ge> 1\<close> rows and \<open>K \<ge> 0\<close>, \<open>_find_nearest\<close>
  returns a list: it has \<open>min K N\<close> entries, each below \<open>N\<close>, no entry twice. A \<open>K\<close> above
  \<open>N\<close> is cut to \<open>N\<close> by the slice and raises nothing.
\<close>

theorem find_nearest_count:
  assumes contract: "argsort_contract argsort"
    and "y \<noteq> []" and "q \<noteq> []" and "ncols y = length q" and "0 \<le> K"
  shows "\<exists>res. qrecsys_find_nearest argsort distance [q] y K = Inr res \<and>
           length res = min (nat K) (length y) \<and>
           (\<forall>i \<in> set res. i < length y) \<and> distinct res"
proof -
  define d where "d = map (distance q) y"
  define res where "res = slice_to K (argsort d)"
  have "qrecsys_find_nearest argsort distance [q] y K = Inr res"
    using assms by (simp add: qrecsys_find_nearest_body find_nearest_body_ok res_def d_def)
  moreover have "length res = min (nat K) (length y)"
    using \<open>0 \<le> K\<close>
    by (simp add: res_def slice_to_length_nonneg argsort_length[OF contract] d_def)
  moreover have "\<forall>i \<in> set res. i < length y"
    using set_slice_to[of K "argsort d"] argsort_contractD(2)[OF contract, of d]
    by (auto simp: res_def d_def)
  moreover have "distinct res"
    by (simp add: res_def distinct_slice_to argsort_contractD(1)[OF contract])
  ultimately show ?thesis by blast
qed

theorem find_nearest_count_witness:
  "qrecsys_find_nearest stable_argsort float64_distance
     [[0, 0]] [[3, 1], [1, 1], [2, 5]] 7 = Inr [1, 0, 2]
   \<and> length [1, 0, 2 :: nat] = min (nat 7) (length [[3, 1], [1, 1], [2, 5 :: real]])"
  using find_nearest_count
    [OF stable_argsort_contract,
      where y = "[[3, 1], [1, 1], [2, 5]]" and q = "[0, 0]" and K = 7
        and distance = float64_distance]
    three_rows(2)
  by (simp add: ncols_def)

text \<open>
  Claim C3, as the code has it. \<open>_find_nearest\<close> raises exactly when one of its two
  arrays has no row or no column or when their widths differ, and what it raises is
  the \<open>ValueError\<close> of the distance routine. The sign of \<open>K\<close> plays no part: every other
  call returns a list. Whether it raises or returns, it does not mutate its
  arguments: run on a memory that holds the query array at \<open>x\<close> and the reference
  matrix at \<open>y\<close>, it gives the same result and leaves a memory in which every array
  that was there before, \<open>x\<close> and \<open>y\<close> among them, has its contents unchanged.
\<close>

theorem find_nearest_raises:
  assumes "x < length memory" and "y < length memory"
    and "memory ! x = Floats X" and "memory ! y = Floats Y"
  shows "(qrecsys_find_nearest argsort distance X Y K = Inl e \<longleftrightarrow>
            e = ValueError \<and>
            (X = [] \<or> ncols X = 0 \<or> Y = [] \<or> ncols Y = 0 \<or> ncols X \<noteq> ncols Y)) \<and>
         fst (find_nearest_memory argsort distance memory x y K) =
           qrecsys_find_nearest argsort distance X Y K \<and>
         take (length memory) (snd (find_nearest_memory argsort distance memory x y K)) =
           memory \<and>
         snd (find_nearest_memory argsort distance memory x y K) ! x = Floats X \<and>
         snd (find_nearest_memory argsort distance memory x y K) ! y = Floats Y"
proof -
  let ?after = "snd (find_nearest_memory argsort distance memory x y K)"
  have frame: "take (length memory) ?after = memory"
    by (rule find_nearest_memory_frame)
  have same: "?after ! a = memory ! a" if "a < length memory" for a
  proof -
    have "take (length memory) ?after ! a = ?after ! a"
      using that by simp
    then show ?thesis
      by (simp only: frame)
  qed
  have result: "fst (find_nearest_memory argsort distance memory x y K) =
                  find_nearest_body argsort distance X Y K"
    using assms(3,4) by (rule find_nearest_memory_result)
  have "?after ! x = Floats X" and "?after ! y = Floats Y"
    using assms by (simp_all add: same)
  then show ?thesis
    by (simp add: qrecsys_find_nearest_body find_nearest_body_raises result frame)
qed

theorem find_nearest_raises_witness:
  "qrecsys_find_nearest stable_argsort float64_distance [[0, 0]] [[3, 1, 4]] 2
     = Inl ValueError \<and>
   find_nearest_memory stable_argsort float64_distance
     [Floats [[0, 0]], Floats [[3, 1, 4]]] 0 1 2
     = (Inl ValueError, [Floats [[0, 0]], Floats [[3, 1, 4]]]) \<and>
   find_nearest_memory stable_argsort float64_distance
     [Floats [[0]], Floats [[3], [1], [2]]] 0 1 (- 1)
     = (Inr [1, 2],
        [Floats [[0]], Floats [[3], [1], [2]], Distances [[3, 1, 2]], Indices [[1, 2, 0]]])"
proof -
  have returns: "find_nearest_memory stable_argsort float64_distance
     [Floats [[0]], Floats [[3], [1], [2]]] 0 1 (- 1)
     = (Inr [1, 2],
        [Floats [[0]], Floats [[3], [1], [2]], Distances [[3, 1, 2]], Indices [[1, 2, 0]]])"
    by (simp add: find_nearest_memory_def euclidean_distances_def ncols_def
        float64_distance_small stable_argsort_def slice_to_def upt_rec)
  let ?memory = "[Floats [[0, 0]], Floats [[3, 1, 4]]] :: real array list"
  have run: "find_nearest_memory stable_argsort float64_distance ?memory 0 1 2
               = (Inl ValueError, ?memory)"
    by (simp add: find_nearest_memory_def euclidean_distances_def ncols_def)
  have "0 < length ?memory" and "1 < length ?memory"
    and "?memory ! 0 = Floats [[0, 0]]" and "?memory ! 1 = Floats [[3, 1, 4]]"
    by simp_all
  from find_nearest_raises [OF this, of stable_argsort float64_distance 2 ValueError]
  have "qrecsys_find_nearest stable_argsort float64_distance [[0, 0]] [[3, 1, 4]] 2
          = Inl ValueError \<longleftrightarrow>
        ValueError = ValueError \<and>
        ([[0, 0]] = ([] :: matrix) \<or> ncols [[0, 0]] = 0 \<or> [[3, 1, 4]] = ([] :: matrix) \<or>
         ncols [[3, 1, 4]] = 0 \<or> ncols [[0, 0]] \<noteq> ncols [[3, 1, 4]])"
    by (rule conjunct1)
  then have "qrecsys_find_nearest stable_argsort float64_distance [[0, 0]] [[3, 1, 4]] 2
          = Inl ValueError"
    by (simp add: ncols_def)
  with run returns show ?thesis
    by (simp only: simp_thms)
qed

text \<open>
  Claim C3 as the specification states it fails for a negative \<open>K\<close>: with \<open>K = -1\<close> the
  slice drops the farthest of three rows and the call returns the other two.
\<close>

theorem find_nearest_negative_K_counterexample:
  "qrecsys_find_nearest stable_argsort float64_distance
     [[0, 0]] [[3, 1], [1, 1], [2, 5]] (- 1) = Inr [1, 0]"
  by (simp add: finder_defs float64_distance_rows fl_sqrt_compare)

subsection \<open>Equal distances\<close>

text \<open>
  Where two rows have the same computed distance from the query, the order of their
  indices in the result is the order in which the argsort leaves equal values. Both
  argsorts above meet the contract, and they disagree on two rows at distance 1.
\<close>

lemma sorted_rev_neg:
  "sorted (map (\<lambda>i. - f i) xs) \<Longrightarrow> sorted (map f (rev xs))" for f :: "nat \<Rightarrow> real"
  by (induction xs) (auto simp: sorted_append)

lemma reversing_argsort_contract: "argsort_contract reversing_argsort"
  unfolding argsort_contract_def reversing_argsort_def
  by (auto intro: sorted_rev_neg sorted_sort_key)

lemma equal_distances_stable:
  "qrecsys_find_nearest stable_argsort float64_distance [[0]] [[1], [- 1]] 2 = Inr [0, 1]"
  by (simp add: finder_defs float64_distance_small)

lemma equal_distances_reversing:
  "qrecsys_find_nearest reversing_argsort float64_distance [[0]] [[1], [- 1]] 2 = Inr [1, 0]"
  by (simp add: qrecsys_find_nearest_body find_nearest_body_def euclidean_distances_def
      ncols_def reversing_argsort_def slice_to_def upt_rec float64_distance_small)

section \<open>Properties of the recommender\<close>

subsection \<open>The set difference and the loop\<close>

lemma select_mask_map: "select_mask ar (map P ar) = filter P ar"
  unfolding select_mask_def by (induction ar) simp_all

lemma setdiff1d_filter: "setdiff1d ar1 ar2 = filter (\<lambda>a. a \<notin> set ar2) ar1"
  by (simp add: setdiff1d_def in1d_def select_mask_map)

lemma qrecsys_expand_seed_Inr:
  assumes "qrecsys_expand_seed argsort distance R opts recs s = Inr recs'"
  shows "s < length (embeds_mf R) \<and>
         (\<exists>mf_items. qrecsys_find_nearest argsort distance [embeds_mf R ! s] (embeds_mf R)
              (K_mf opts * mf_buffer_multiplier opts) = Inr mf_items \<and>
            recs' = recs @ slice_to (K_mf opts) (filter (\<lambda>a. a \<notin> set recs) mf_items))"
  using assms
  by (auto simp: qrecsys_expand_seed_def row_of_def setdiff1d_filter Let_def
           split: if_splits sum.splits)

lemma find_nearest_single_Inr:
  assumes contract: "argsort_contract argsort"
    and ret: "qrecsys_find_nearest argsort distance [q] y K = Inr res"
  shows "distinct res" and "set res \<subseteq> {0..<length y}"
proof -
  define d where "d = map (distance q) y"
  have res: "res = slice_to K (argsort d)"
    using ret by (simp add: qrecsys_find_nearest_body d_def find_nearest_body_single)
  show "distinct res"
    by (simp add: res distinct_slice_to argsort_contractD(1)[OF contract])
  show "set res \<subseteq> {0..<length y}"
    using set_slice_to[of K "argsort d"] argsort_contractD(2)[OF contract, of d]
    by (auto simp: res d_def)
qed

text \<open>
  One round of the loop keeps the accumulated list free of duplicates and inside the
  index range of the collaborative matrix, and only appends to it. Both arguments of
  \<open>setdiff1d\<close> are therefore duplicate-free at every call, as \<open>assume_unique\<close> demands.
\<close>

lemma qrecsys_expand_seed_invariant:
  assumes contract: "argsort_contract argsort"
    and step: "qrecsys_expand_seed argsort distance R opts recs s = Inr recs'"
    and dist: "distinct recs"
    and bound: "set recs \<subseteq> {0..<length (embeds_mf R)}"
  shows "distinct recs'" and "set recs' \<subseteq> {0..<length (embeds_mf R)}"
    and "prefix recs recs'"
proof -
  from qrecsys_expand_seed_Inr[OF step] obtain mf_items where
    fetch: "qrecsys_find_nearest argsort distance [embeds_mf R ! s] (embeds_mf R)
              (K_mf opts * mf_buffer_multiplier opts) = Inr mf_items"
    and recs': "recs' = recs @ slice_to (K_mf opts) (filter (\<lambda>a. a \<notin> set recs) mf_items)"
    by blast
  define rec where "rec = slice_to (K_mf opts) (filter (\<lambda>a. a \<notin> set recs) mf_items)"
  have sub: "set rec \<subseteq> set (filter (\<lambda>a. a \<notin> set recs) mf_items)"
    unfolding rec_def by (rule set_slice_to)
  have "distinct rec"
    unfolding rec_def
    by (intro distinct_slice_to distinct_filter find_nearest_single_Inr(1)[OF contract fetch])
  moreover have "set rec \<inter> set recs = {}"
    using sub by auto
  ultimately show "distinct recs'"
    using dist by (auto simp: recs' rec_def[symmetric])
  show "set recs' \<subseteq> {0..<length (embeds_mf R)}"
    using sub bound find_nearest_single_Inr(2)[OF contract fetch]
    by (auto simp: recs' rec_def[symmetric])
  show "prefix recs recs'"
    by (simp add: recs')
qed

lemma qrecsys_expand_invariant:
  assumes contract: "argsort_contract argsort"
    and loop: "qrecsys_expand argsort distance R opts seeds recs = Inr out"
    and dist: "distinct recs"
    and bound: "set recs \<subseteq> {0..<length (embeds_mf R)}"
  shows "distinct out \<and> set out \<subseteq> {0..<length (embeds_mf R)} \<and> prefix recs out"
  using loop dist bound
proof (induction seeds arbitrary: recs)
  case Nil
  then show ?case by simp
next
  case (Cons s seeds)
  from Cons.prems(1) obtain recs' where
    step: "qrecsys_expand_seed argsort distance R opts recs s = Inr recs'"
    and rest: "qrecsys_expand argsort distance R opts seeds recs' = Inr out"
    by (auto split: sum.splits)
  note inv = qrecsys_expand_seed_invariant[OF contract step Cons.prems(2) Cons.prems(3)]
  from Cons.IH[OF rest inv(1) inv(2)] inv(3) show ?case
    by (auto intro: prefix_order.trans)
qed

subsection \<open>When the loop and the catalog lookup succeed\<close>

lemma nth_length_matrix: "is_matrix m \<Longrightarrow> i < length m \<Longrightarrow> length (m ! i) = ncols m"
  by (simp add: is_matrix_def)

lemma qrecsys_expand_seed_ok:
  assumes "is_matrix (embeds_mf R)" and "0 < ncols (embeds_mf R)"
    and "s < length (embeds_mf R)"
  shows "\<exists>recs'. qrecsys_expand_seed argsort distance R opts recs s = Inr recs'"
proof -
  have "embeds_mf R \<noteq> []"
    using assms(3) by auto
  moreover have "length (embeds_mf R ! s) = ncols (embeds_mf R)"
    using assms by (simp add: nth_length_matrix)
  moreover have "embeds_mf R ! s \<noteq> []"
    using assms calculation by auto
  ultimately show ?thesis
    using assms(3)
    by (simp add: qrecsys_expand_seed_def row_of_def qrecsys_find_nearest_body
        find_nearest_body_ok Let_def)
qed

lemma qrecsys_expand_ok:
  assumes mat: "is_matrix (embeds_mf R)" and wid: "0 < ncols (embeds_mf R)"
    and seeds: "set seeds \<subseteq> {0..<length (embeds_mf R)}"
  shows "\<exists>out. qrecsys_expand argsort distance R opts seeds recs = Inr out"
  using seeds
proof (induction seeds arbitrary: recs)
  case Nil
  then show ?case by simp
next
  case (Cons s seeds)
  then have "s < length (embeds_mf R)"
    by simp
  from qrecsys_expand_seed_ok[OF mat wid this] obtain recs' where
    "qrecsys_expand_seed argsort distance R opts recs s = Inr recs'"
    by blast
  moreover from Cons obtain out where "qrecsys_expand argsort distance R opts seeds recs' = Inr out"
    by auto
  ultimately show ?case
    by simp
qed

lemma titles_of_Inr:
  "titles_of catalog recs = Inr titles \<Longrightarrow> map catalog recs = map Some titles"
  by (induction recs arbitrary: titles) (auto split: option.splits sum.splits)

lemma titles_of_ok:
  "\<forall>i \<in> set recs. catalog i \<noteq> None \<Longrightarrow> \<exists>titles. titles_of catalog recs = Inr titles"
  by (induction recs) auto

lemma qrecsys_seeds_range:
  assumes contract: "argsort_contract argsort"
    and enc: "encoder R [query] = [q]"
    and ret: "qrecsys_seeds argsort distance R query opts = Inr seeds"
  shows "set seeds \<subseteq> {0..<length (embeds_use R)}"
proof -
  from ret enc obtain item_ids where
    fetch: "qrecsys_find_nearest argsort distance [q] (embeds_use R)
              (K_use opts * use_buffer_multiplier opts) = Inr item_ids"
    and seeds: "seeds = slice_to (K_use opts) (filter (\<lambda>i. i \<in> interacted_items R) item_ids)"
    by (auto simp: qrecsys_seeds_def Let_def split: sum.splits)
  show ?thesis
    using set_slice_to[of "K_use opts" "filter (\<lambda>i. i \<in> interacted_items R) item_ids"]
      find_nearest_single_Inr(2)[OF contract fetch]
    by (auto simp: seeds)
qed

lemma pipeline_recommend_TypeError: "pipeline_recommend argsort distance R query opts = Inl TypeError"
  by (simp add: pipeline_recommend_def pipeline_find_nearest_TypeError)

subsection \<open>Evaluation on the example data\<close>

lemmas example_defs =
  example_recommender_def example_options_def example_catalog_def

lemmas eval_defs =
  qrecsys_recommend_def qrecsys_recommend_indices_def qrecsys_seeds_def
  qrecsys_expand_seed_def row_of_def setdiff1d_filter qrecsys_find_nearest_body
  find_nearest_body_def euclidean_distances_def ncols_def float64_distance_small
  stable_argsort_def slice_to_def upt_rec Let_def

subsection \<open>The claims about \<open>recommend\<close>\<close>

text \<open>
  Claim C5, as the code has it. When \<open>n_to_recommend\<close> is not negative and \<open>recommend\<close>
  returns, the returned list has at most \<open>n_to_recommend\<close> entries and is in generation
  order: it is, position by position, the catalog title of the first \<open>n_to_recommend\<close>
  indices of the list \<open>acc\<close> that the loop accumulated from the seeds. No index occurs
  twice in \<open>acc\<close>; the titles are free of duplicates when the catalog gives distinct
  titles to the indices of \<open>acc\<close>.
\<close>

theorem recommend_bounded_ordered:
  assumes contract: "argsort_contract argsort"
    and n: "0 \<le> n_to_recommend opts"
    and ret: "qrecsys_recommend argsort distance R query opts = Inr titles"
  shows "\<exists>seeds acc.
           qrecsys_seeds argsort distance R query opts = Inr seeds \<and>
           qrecsys_expand argsort distance R opts seeds [] = Inr acc \<and>
           distinct acc \<and>
           length titles \<le> nat (n_to_recommend opts) \<and>
           map Some titles = map (items R) (take (nat (n_to_recommend opts)) acc) \<and>
           (inj_on (items R) (set acc) \<longrightarrow> distinct titles)"
proof -
  from ret obtain seeds acc where
    seeds: "qrecsys_seeds argsort distance R query opts = Inr seeds"
    and acc: "qrecsys_expand argsort distance R opts seeds [] = Inr acc"
    and titles: "titles_of (items R) (slice_to (n_to_recommend opts) acc) = Inr titles"
    by (auto simp: qrecsys_recommend_def qrecsys_recommend_indices_def split: sum.splits)
  define recs where "recs = take (nat (n_to_recommend opts)) acc"
  have recs: "slice_to (n_to_recommend opts) acc = recs"
    using n by (simp add: recs_def slice_to_nonneg)
  have dist: "distinct acc"
    using qrecsys_expand_invariant[OF contract acc] by simp
  have img: "map Some titles = map (items R) recs"
    using titles_of_Inr[OF titles[unfolded recs]] by simp
  then have "length titles = length recs"
    by (metis length_map)
  then have len: "length titles \<le> nat (n_to_recommend opts)"
    by (simp add: recs_def)
  have "distinct titles" if inj: "inj_on (items R) (set acc)"
  proof -
    have "inj_on (items R) (set recs)"
      using inj by (rule inj_on_subset) (auto simp: recs_def dest: in_set_takeD)
    moreover have "distinct recs"
      using dist by (simp add: recs_def)
    ultimately have "distinct (map (items R) recs)"
      by (simp add: distinct_map)
    then have "distinct (map Some titles)"
      by (simp add: img)
    then show ?thesis
      by (simp add: distinct_map)
  qed
  with seeds acc dist len img show ?thesis
    unfolding recs_def by blast
qed

theorem recommend_bounded_ordered_witness:
  "qrecsys_recommend stable_argsort float64_distance example_recommender ''novel''
     (example_options 2 2 3) = Inr [''Walden'', ''Hamlet'', ''Ulysses'']
   \<and> length [''Walden'', ''Hamlet'', ''Ulysses''] \<le> nat 3
   \<and> map Some [''Walden'', ''Hamlet'', ''Ulysses'']
       = map example_catalog (take (nat 3) [3, 4, 1, 0])"
proof -
  have ret: "qrecsys_recommend stable_argsort float64_distance example_recommender ''novel''
     (example_options 2 2 3) = Inr [''Walden'', ''Hamlet'', ''Ulysses'']"
    by (simp add: eval_defs example_defs)
  have acc: "qrecsys_expand stable_argsort float64_distance example_recommender (example_options 2 2 3)
     [3, 1] [] = Inr [3, 4, 1, 0]"
    by (simp add: eval_defs example_defs)
  have seeds: "qrecsys_seeds stable_argsort float64_distance example_recommender ''novel''
     (example_options 2 2 3) = Inr [3, 1]"
    by (simp add: eval_defs example_defs)
  have n: "0 \<le> n_to_recommend (example_options 2 2 3)"
    by (simp add: example_options_def)
  from recommend_bounded_ordered [OF stable_argsort_contract n ret]
  show ?thesis
    using ret by (simp add: seeds acc) (simp add: example_defs)
qed

text \<open>
  Claim C5 as the specification states it fails where the catalog gives one title to
  two items: items 0 and 5 are both titled Emma, both are recommended, and the
  returned list holds that title twice.
\<close>

theorem recommend_duplicate_titles_counterexample:
  "qrecsys_recommend stable_argsort float64_distance example_recommender ''novel'' (example_options 2 3 5)
     = Inr [''Walden'', ''Hamlet'', ''Ulysses'', ''Emma'', ''Emma'']"
  by (simp add: eval_defs example_defs)

text \<open>
  Claim C6. With an empty set of interacted items, and a query whose encoding has the
  width of the non-empty semantic matrix, the seed list is empty and \<open>recommend\<close>
  returns the empty list, whatever the options.
\<close>

theorem recommend_empty_interactions:
  assumes "interacted_items R = {}"
    and "encoder R [query] = [q]" and "q \<noteq> []"
    and "embeds_use R \<noteq> []" and "ncols (embeds_use R) = length q"
  shows "qrecsys_seeds argsort distance R query opts = Inr [] \<and>
         qrecsys_recommend argsort distance R query opts = Inr []"
proof -
  have "qrecsys_seeds argsort distance R query opts = Inr []"
    using assms
    by (simp add: qrecsys_seeds_def qrecsys_find_nearest_body find_nearest_body_ok
        slice_to_def)
  then show ?thesis
    by (simp add: qrecsys_recommend_def qrecsys_recommend_indices_def slice_to_def)
qed

theorem recommend_empty_interactions_witness:
  "qrecsys_seeds stable_argsort float64_distance (example_recommender\<lparr>interacted_items := {}\<rparr>) ''novel''
     (example_options 2 2 3) = Inr [] \<and>
   qrecsys_recommend stable_argsort float64_distance (example_recommender\<lparr>interacted_items := {}\<rparr>) ''novel''
     (example_options 2 2 3) = Inr []"
  using recommend_empty_interactions
    [where R = "example_recommender\<lparr>interacted_items := {}\<rparr>" and query = "''novel''"
       and q = "[0]" and argsort = stable_argsort and distance = float64_distance
       and opts = "example_options 2 2 3"]
  by (simp add: example_recommender_def ncols_def)

text \<open>
  Claim C7. Let \<open>K_mf\<close> be non-negative and let \<open>fetch s\<close> be the list that the
  collaborative nearest-neighbour call returns for the seed \<open>s\<close>. Then the loop over the
  seeds computes, seed after seed in the order of the seed list, the step of the
  specification: from \<open>fetch s\<close> the indices already accumulated are removed, the
  survivors keep the order of the fetch, and the first \<open>K_mf\<close> of them (all, if there
  are fewer) are appended to the accumulated list.
\<close>

theorem expand_follows_specification:
  assumes "0 \<le> K_mf opts"
    and "\<forall>s \<in> set seeds. s < length (embeds_mf R) \<and>
           qrecsys_find_nearest argsort distance [embeds_mf R ! s] (embeds_mf R)
             (K_mf opts * mf_buffer_multiplier opts) = Inr (fetch s)"
  shows "qrecsys_expand argsort distance R opts seeds recs =
           Inr (foldl (\<lambda>acc s. spec_expand_seed (nat (K_mf opts)) acc (fetch s)) recs seeds)"
  using assms(2)
proof (induction seeds arbitrary: recs)
  case Nil
  then show ?case by simp
next
  case (Cons s seeds)
  have "qrecsys_expand_seed argsort distance R opts recs s =
          Inr (spec_expand_seed (nat (K_mf opts)) recs (fetch s))"
    using Cons.prems assms(1)
    by (simp add: qrecsys_expand_seed_def row_of_def setdiff1d_filter slice_to_nonneg
        spec_expand_seed_def)
  then show ?case
    using Cons by simp
qed

theorem expand_follows_specification_witness:
  "qrecsys_expand stable_argsort float64_distance example_recommender (example_options 2 2 3) [3, 1] []
     = Inr [3, 4, 1, 0]"
  using expand_follows_specification
    [where opts = "example_options 2 2 3" and seeds = "[3, 1]" and R = example_recommender
       and argsort = stable_argsort and distance = float64_distance
       and fetch = "\<lambda>s. if s = 3 then [3, 4, 1, 0] else [1, 4, 0, 3]" and recs = "[]"]
  by (simp add: eval_defs example_defs spec_expand_seed_def)

text \<open>
  Claim C8, as the code has it. \<open>recommend\<close> does not look at the sign of its options.
  For every query and all integer values of the five options, zero and negative ones
  included, it returns a list whenever the artifacts are well formed: the encoding of
  the query has the width of the non-empty semantic matrix, the collaborative matrix
  has as many rows as the semantic one and at least one column, and the catalog has a
  title for every row.
\<close>

theorem recommend_any_options:
  assumes contract: "argsort_contract argsort"
    and enc: "encoder R [query] = [q]" and q: "q \<noteq> []"
    and use: "embeds_use R \<noteq> []" "ncols (embeds_use R) = length q"
    and rows: "length (embeds_mf R) = length (embeds_use R)"
    and mf: "is_matrix (embeds_mf R)" "0 < ncols (embeds_mf R)"
    and cat: "{0..<length (embeds_mf R)} \<subseteq> dom (items R)"
  shows "\<exists>titles. qrecsys_recommend argsort distance R query opts = Inr titles"
proof -
  obtain seeds where seeds: "qrecsys_seeds argsort distance R query opts = Inr seeds"
    using enc q use
    by (simp add: qrecsys_seeds_def qrecsys_find_nearest_body find_nearest_body_ok)
  have "set seeds \<subseteq> {0..<length (embeds_mf R)}"
    using qrecsys_seeds_range[OF contract enc seeds] rows by simp
  from qrecsys_expand_ok[OF mf this] obtain acc where
    acc: "qrecsys_expand argsort distance R opts seeds [] = Inr acc"
    by blast
  have "set acc \<subseteq> {0..<length (embeds_mf R)}"
    using qrecsys_expand_invariant[OF contract acc] by simp
  then have "set (slice_to (n_to_recommend opts) acc) \<subseteq> dom (items R)"
    using set_slice_to[of "n_to_recommend opts" acc] cat by blast
  then have "\<forall>i \<in> set (slice_to (n_to_recommend opts) acc). items R i \<noteq> None"
    by auto
  from titles_of_ok[OF this] show ?thesis
    by (simp add: qrecsys_recommend_def qrecsys_recommend_indices_def seeds acc)
qed

theorem recommend_any_options_witness:
  "(\<exists>titles. qrecsys_recommend stable_argsort float64_distance example_recommender ''novel''
     \<lparr>K_use = - 1, K_mf = - 1, n_to_recommend = - 1,
      use_buffer_multiplier = - 6, mf_buffer_multiplier = - 4\<rparr> = Inr titles) \<and>
   qrecsys_recommend stable_argsort float64_distance example_recommender ''novel''
     \<lparr>K_use = - 1, K_mf = - 1, n_to_recommend = - 1,
      use_buffer_multiplier = - 6, mf_buffer_multiplier = - 4\<rparr> = Inr [''Walden'', ''Hamlet'']"
proof -
  have "qrecsys_recommend stable_argsort float64_distance example_recommender ''novel''
     \<lparr>K_use = - 1, K_mf = - 1, n_to_recommend = - 1,
      use_buffer_multiplier = - 6, mf_buffer_multiplier = - 4\<rparr> = Inr [''Walden'', ''Hamlet'']"
    by (simp add: eval_defs example_defs)
  moreover have "{0..<length (embeds_mf example_recommender)}
                   \<subseteq> dom (items example_recommender)"
    by (simp add: example_defs atLeastLessThan_upt upt_rec)
  ultimately show ?thesis
    using recommend_any_options
      [OF stable_argsort_contract,
        where R = example_recommender and query = "''novel''" and q = "[0]"
          and distance = float64_distance]
    by (simp add: example_recommender_def ncols_def is_matrix_def)
qed

text \<open>
  Claim C8 as the specification states it fails at \<open>K_use = 0\<close>: nothing is fetched, no
  seed is left, and \<open>recommend\<close> returns the empty list instead of failing.
\<close>

theorem recommend_zero_K_use_counterexample:
  "qrecsys_recommend stable_argsort float64_distance example_recommender ''novel'' (example_options 0 2 5)
     = Inr []"
  by (simp add: eval_defs example_defs)

text \<open>
  Claim C9. When the width of the encoded query differs from the width of the semantic
  matrix, \<open>recommend\<close> returns no list: the first nearest-neighbour call raises the
  \<open>ValueError\<close> of the distance routine, and \<open>recommend\<close> passes it on.
\<close>

theorem recommend_dimension_mismatch:
  assumes "encoder R [query] = [q]" and "length q \<noteq> ncols (embeds_use R)"
  shows "qrecsys_recommend argsort distance R query opts = Inl ValueError"
proof -
  have "find_nearest_body argsort distance [q] (embeds_use R)
          (K_use opts * use_buffer_multiplier opts) = Inl ValueError"
    using assms(2) by (auto simp: find_nearest_body_raises ncols_def)
  then show ?thesis
    using assms(1)
    by (simp add: qrecsys_recommend_def qrecsys_recommend_indices_def qrecsys_seeds_def
        qrecsys_find_nearest_body)
qed

theorem recommend_dimension_mismatch_witness:
  "qrecsys_recommend stable_argsort float64_distance
     (example_recommender\<lparr>embeds_use := [[5, 1], [4, 1], [3, 1], [1, 1], [2, 1], [6, 1]]\<rparr>)
     ''novel'' (example_options 2 2 3) = Inl ValueError"
  using recommend_dimension_mismatch
    [where R = "example_recommender\<lparr>embeds_use :=
                  [[5, 1], [4, 1], [3, 1], [1, 1], [2, 1], [6, 1]]\<rparr>"
       and query = "''novel''" and q = "[0]" and argsort = stable_argsort
       and distance = float64_distance and opts = "example_options 2 2 3"]
  by (simp add: example_recommender_def ncols_def)

text \<open>
  Claim C10 compares the index lists of the two modules. On the example data
  \<open>recommend\<close> of \<open>recsys_pipeline.py\<close> returns no list at all: its first call of
  \<open>_find_nearest\<close> raises \<open>TypeError\<close>, because the method has no \<open>self\<close> parameter and
  \<open>K\<close> is bound both by position and by keyword. \<open>recommend\<close> of \<open>qrecsys.py\<close> computes
  the index list 3, 4 from the same data and options.
\<close>

theorem pipeline_recommend_raises:
  "pipeline_recommend stable_argsort float64_distance example_recommender ''novel'' (example_options 1 2 5)
     = Inl TypeError \<and>
   qrecsys_recommend_indices stable_argsort float64_distance example_recommender ''novel''
     (example_options 1 2 5) = Inr [3, 4]"
  by (simp add: pipeline_recommend_TypeError) (simp add: eval_defs example_defs)

end
